theory Spec2Isabelle
  imports Main "HOL-Library.Word"
begin

unbundle bit_operations_syntax

section \<open>Go values shared by both packages\<close>

text \<open>
  A Go \<^verbatim>\<open>string\<close> and a \<^verbatim>\<open>[]byte\<close> are both sequences of bytes; an Isabelle
  \<^typ>\<open>char\<close> is one byte, so both are modelled as \<^typ>\<open>string\<close>.

  A Go function either returns its results or panics. The two run-time panics that the
  modelled code can raise are a slice expression out of range and a method of
  \<^verbatim>\<open>database/sql\<close> called on a nil \<^verbatim>\<open>*Rows\<close> or \<^verbatim>\<open>*Stmt\<close>.
\<close>

type_synonym bytes = string

datatype panic = SliceBoundsOutOfRange | NilPointerDereference

datatype 'a outcome = Returns 'a | Panics panic

definition byte :: "nat \<Rightarrow> char" where
  "byte n = char_of n"

definition dquote :: char where
  "dquote = CHR 0x22"

definition newline :: char where
  "newline = CHR 0x0A"

definition backslash :: char where
  "backslash = CHR 0x5C"

section \<open>Package strings, strconv and fmt\<close>

text \<open>
  The functions of Go's standard library that the two packages call, on byte strings.
  Separators and replaced substrings are never empty at a call site of the modelled code.

  \<open>ToLower\<close> and \<open>ToUpper\<close> map the ASCII letters and leave every other byte as it
  is. Go maps the runes of the UTF-8 string: on a string of ASCII bytes the two agree, on a
  string with a byte of \<open>0x80\<close> or more they can differ (Go lowers \<open>U+0130\<close> to
  \<open>i\<close>, raises \<open>U+00E9\<close> to \<open>U+00C9\<close> and replaces invalid UTF-8), and
  there the two definitions below are not the code. The properties
  proved of the authenticator use them only as some function on strings, except the test
  of the scheme name, and no four bytes with a non-ASCII byte among them lower to
  \<open>hawk\<close> in Go either.
\<close>

definition HasPrefix :: "string \<Rightarrow> string \<Rightarrow> bool" where
  "HasPrefix s prefix = (take (length prefix) s = prefix)"

text \<open>\<open>Cut s sep\<close>: the text before and after the first instance of \<open>sep\<close> in \<open>s\<close>.\<close>

fun Cut :: "string \<Rightarrow> string \<Rightarrow> (string \<times> string) option" where
  "Cut [] sep = (if sep = [] then Some ([], []) else None)"
| "Cut (c # cs) sep =
     (if HasPrefix (c # cs) sep then Some ([], drop (length sep) (c # cs))
      else (case Cut cs sep of
              None \<Rightarrow> None
            | Some (before, after) \<Rightarrow> Some (c # before, after)))"

text \<open>\<open>SplitN s sep n\<close> for \<open>n \<ge> 0\<close>: at most \<open>n\<close> substrings, the last one the unsplit rest.\<close>

fun SplitN :: "string \<Rightarrow> string \<Rightarrow> nat \<Rightarrow> string list" where
  "SplitN s sep 0 = []"
| "SplitN s sep (Suc 0) = [s]"
| "SplitN s sep (Suc (Suc n)) =
     (case Cut s sep of
        None \<Rightarrow> [s]
      | Some (before, after) \<Rightarrow> before # SplitN after sep (Suc n))"

text \<open>
  \<open>Split s sep\<close> splits at every instance of a non-empty \<open>sep\<close>. There are at most
  \<open>length s\<close> instances, so the bound below never cuts the result short.
\<close>

definition Split :: "string \<Rightarrow> string \<Rightarrow> string list" where
  "Split s sep = SplitN s sep (Suc (length s))"

definition TrimRight :: "string \<Rightarrow> string \<Rightarrow> string" where
  "TrimRight s cutset = rev (dropWhile (\<lambda>c. c \<in> set cutset) (rev s))"

definition Trim :: "string \<Rightarrow> string \<Rightarrow> string" where
  "Trim s cutset = TrimRight (dropWhile (\<lambda>c. c \<in> set cutset) s) cutset"

definition lower_byte :: "char \<Rightarrow> char" where
  "lower_byte c =
     (if (65::nat) \<le> of_char c \<and> of_char c \<le> (90::nat) then char_of (of_char c + (32::nat)) else c)"

definition upper_byte :: "char \<Rightarrow> char" where
  "upper_byte c =
     (if (97::nat) \<le> of_char c \<and> of_char c \<le> (122::nat) then char_of (of_char c - (32::nat)) else c)"

definition ToLower :: "string \<Rightarrow> string" where
  "ToLower s = map lower_byte s"

definition ToUpper :: "string \<Rightarrow> string" where
  "ToUpper s = map upper_byte s"

text \<open>\<open>Replace s old new\<close> with count \<open>-1\<close>: every instance of a non-empty \<open>old\<close>.\<close>

fun Replace :: "string \<Rightarrow> string \<Rightarrow> string \<Rightarrow> string" where
  "Replace [] old new = []"
| "Replace (c # cs) old new =
     (if old \<noteq> [] \<and> HasPrefix (c # cs) old
      then new @ Replace (drop (length old) (c # cs)) old new
      else c # Replace cs old new)"

text \<open>\<open>strconv.FormatInt(i, 10)\<close>.\<close>

definition digit :: "nat \<Rightarrow> char" where
  "digit n = char_of (48 + n mod 10)"

function digits :: "nat \<Rightarrow> string" where
  "digits n = (if n < 10 then [digit n] else digits (n div 10) @ [digit n])"
  by pat_completeness auto
termination
  by (relation "measure id") auto

declare digits.simps [simp del]

definition FormatInt :: "int \<Rightarrow> string" where
  "FormatInt i = (if i < 0 then CHR ''-'' # digits (nat (- i)) else digits (nat i))"

section \<open>Packages crypto/sha256, crypto/md5, crypto/hmac, encoding/base64 and encoding/hex\<close>

text \<open>
  The digests are the functions of FIPS 180-4 (SHA-256), RFC 1321 (MD5) and RFC 2104
  (HMAC) on byte strings, with 32-bit words; \<open>EncodeToString_b64\<close> is the standard
  alphabet of RFC 4648 with \<open>=\<close> padding, \<open>EncodeToString_hex\<close> is lower-case
  hexadecimal.
\<close>

definition be32 :: "bytes \<Rightarrow> 32 word" where
  "be32 bs = foldl (\<lambda>w c. push_bit 8 w OR of_char c) 0 bs"

definition le32 :: "bytes \<Rightarrow> 32 word" where
  "le32 bs = be32 (rev bs)"

definition be32_bytes :: "32 word \<Rightarrow> bytes" where
  "be32_bytes w = map (\<lambda>i. byte (unat (drop_bit i w AND 255))) [24, 16, 8, 0]"

definition le32_bytes :: "32 word \<Rightarrow> bytes" where
  "le32_bytes w = rev (be32_bytes w)"

definition be64_bytes :: "64 word \<Rightarrow> bytes" where
  "be64_bytes w = map (\<lambda>i. byte (unat (drop_bit i w AND 255))) [56, 48, 40, 32, 24, 16, 8, 0]"

definition chunks :: "nat \<Rightarrow> 'a list \<Rightarrow> 'a list list" where
  "chunks n xs = map (\<lambda>i. take n (drop (n * i) xs)) [0..<length xs div n]"

definition md_pad :: "bytes \<Rightarrow> bytes" where
  "md_pad msg = msg @ byte 128 # replicate ((119 - length msg mod 64) mod 64) (byte 0)"

definition K256 :: "32 word list" where
  "K256 =
     [0x428a2f98, 0x71374491, 0xb5c0fbcf, 0xe9b5dba5, 0x3956c25b, 0x59f111f1, 0x923f82a4, 0xab1c5ed5] @
     [0xd807aa98, 0x12835b01, 0x243185be, 0x550c7dc3, 0x72be5d74, 0x80deb1fe, 0x9bdc06a7, 0xc19bf174] @
     [0xe49b69c1, 0xefbe4786, 0x0fc19dc6, 0x240ca1cc, 0x2de92c6f, 0x4a7484aa, 0x5cb0a9dc, 0x76f988da] @
     [0x983e5152, 0xa831c66d, 0xb00327c8, 0xbf597fc7, 0xc6e00bf3, 0xd5a79147, 0x06ca6351, 0x14292967] @
     [0x27b70a85, 0x2e1b2138, 0x4d2c6dfc, 0x53380d13, 0x650a7354, 0x766a0abb, 0x81c2c92e, 0x92722c85] @
     [0xa2bfe8a1, 0xa81a664b, 0xc24b8b70, 0xc76c51a3, 0xd192e819, 0xd6990624, 0xf40e3585, 0x106aa070] @
     [0x19a4c116, 0x1e376c08, 0x2748774c, 0x34b0bcb5, 0x391c0cb3, 0x4ed8aa4a, 0x5b9cca4f, 0x682e6ff3] @
     [0x748f82ee, 0x78a5636f, 0x84c87814, 0x8cc70208, 0x90befffa, 0xa4506ceb, 0xbef9a3f7, 0xc67178f2]"

definition H256 :: "32 word list" where
  "H256 = [0x6a09e667, 0xbb67ae85, 0x3c6ef372, 0xa54ff53a, 0x510e527f, 0x9b05688c, 0x1f83d9ab, 0x5be0cd19]"

definition Ch :: "32 word \<Rightarrow> 32 word \<Rightarrow> 32 word \<Rightarrow> 32 word" where
  "Ch x y z = (x AND y) XOR (NOT x AND z)"

definition Maj :: "32 word \<Rightarrow> 32 word \<Rightarrow> 32 word \<Rightarrow> 32 word" where
  "Maj x y z = (x AND y) XOR (x AND z) XOR (y AND z)"

definition Sigma0 :: "32 word \<Rightarrow> 32 word" where
  "Sigma0 x = word_rotr 2 x XOR word_rotr 13 x XOR word_rotr 22 x"

definition Sigma1 :: "32 word \<Rightarrow> 32 word" where
  "Sigma1 x = word_rotr 6 x XOR word_rotr 11 x XOR word_rotr 25 x"

definition sigma0 :: "32 word \<Rightarrow> 32 word" where
  "sigma0 x = word_rotr 7 x XOR word_rotr 18 x XOR drop_bit 3 x"

definition sigma1 :: "32 word \<Rightarrow> 32 word" where
  "sigma1 x = word_rotr 17 x XOR word_rotr 19 x XOR drop_bit 10 x"

fun schedule :: "nat \<Rightarrow> 32 word list \<Rightarrow> 32 word list" where
  "schedule 0 w = w"
| "schedule (Suc n) w =
     schedule n (w @ [sigma1 (w ! (length w - 2)) + w ! (length w - 7) +
                      sigma0 (w ! (length w - 15)) + w ! (length w - 16)])"

definition sha256_round :: "32 word list \<Rightarrow> 32 word \<times> 32 word \<Rightarrow> 32 word list" where
  "sha256_round s kw =
     (let a = s ! 0; b = s ! 1; c = s ! 2; d = s ! 3; e = s ! 4; f = s ! 5; g = s ! 6; h = s ! 7;
          t1 = h + Sigma1 e + Ch e f g + fst kw + snd kw;
          t2 = Sigma0 a + Maj a b c
      in [t1 + t2, a, b, c, d + t1, e, f, g])"

definition sha256_block :: "32 word list \<Rightarrow> bytes \<Rightarrow> 32 word list" where
  "sha256_block hs blk =
     map2 (+) hs (foldl sha256_round hs (zip K256 (schedule 48 (map be32 (chunks 4 blk)))))"

definition sha256 :: "bytes \<Rightarrow> bytes" where
  "sha256 msg =
     concat (map be32_bytes
       (foldl sha256_block H256 (chunks 64 (md_pad msg @ be64_bytes (8 * of_nat (length msg))))))"

definition hexdigit :: "nat \<Rightarrow> char" where
  "hexdigit n = ''0123456789abcdef'' ! (n mod 16)"

definition EncodeToString_hex :: "bytes \<Rightarrow> string" where
  "EncodeToString_hex bs = concat (map (\<lambda>c. [hexdigit (of_char c div 16), hexdigit (of_char c)]) bs)"

definition hmac_sha256 :: "bytes \<Rightarrow> bytes \<Rightarrow> bytes" where
  "hmac_sha256 key msg =
     (let k0 = (if 64 < length key then sha256 key else key);
          k = k0 @ replicate (64 - length k0) (byte 0);
          ipad = map (\<lambda>c. byte (of_char c XOR 54)) k;
          opad = map (\<lambda>c. byte (of_char c XOR 92)) k
      in sha256 (opad @ sha256 (ipad @ msg)))"

definition T_md5 :: "32 word list" where
  "T_md5 =
     [0xd76aa478, 0xe8c7b756, 0x242070db, 0xc1bdceee, 0xf57c0faf, 0x4787c62a, 0xa8304613, 0xfd469501] @
     [0x698098d8, 0x8b44f7af, 0xffff5bb1, 0x895cd7be, 0x6b901122, 0xfd987193, 0xa679438e, 0x49b40821] @
     [0xf61e2562, 0xc040b340, 0x265e5a51, 0xe9b6c7aa, 0xd62f105d, 0x02441453, 0xd8a1e681, 0xe7d3fbc8] @
     [0x21e1cde6, 0xc33707d6, 0xf4d50d87, 0x455a14ed, 0xa9e3e905, 0xfcefa3f8, 0x676f02d9, 0x8d2a4c8a] @
     [0xfffa3942, 0x8771f681, 0x6d9d6122, 0xfde5380c, 0xa4beea44, 0x4bdecfa9, 0xf6bb4b60, 0xbebfbc70] @
     [0x289b7ec6, 0xeaa127fa, 0xd4ef3085, 0x04881d05, 0xd9d4d039, 0xe6db99e5, 0x1fa27cf8, 0xc4ac5665] @
     [0xf4292244, 0x432aff97, 0xab9423a7, 0xfc93a039, 0x655b59c3, 0x8f0ccc92, 0xffeff47d, 0x85845dd1] @
     [0x6fa87e4f, 0xfe2ce6e0, 0xa3014314, 0x4e0811a1, 0xf7537e82, 0xbd3af235, 0x2ad7d2bb, 0xeb86d391]"

definition S_md5 :: "nat list" where
  "S_md5 =
     concat (replicate 4 [7, 12, 17, 22]) @ concat (replicate 4 [5, 9, 14, 20]) @
     concat (replicate 4 [4, 11, 16, 23]) @ concat (replicate 4 [6, 10, 15, 21])"

definition le64_bytes :: "64 word \<Rightarrow> bytes" where
  "le64_bytes w = rev (be64_bytes w)"

definition md5_step :: "32 word list \<Rightarrow> 32 word list \<Rightarrow> nat \<Rightarrow> 32 word list" where
  "md5_step m s i =
     (let a = s ! 0; b = s ! 1; c = s ! 2; d = s ! 3;
          f = (if i < 16 then (b AND c) OR (NOT b AND d)
               else if i < 32 then (d AND b) OR (NOT d AND c)
               else if i < 48 then b XOR c XOR d
               else c XOR (b OR NOT d));
          g = (if i < 16 then i
               else if i < 32 then (5 * i + 1) mod 16
               else if i < 48 then (3 * i + 5) mod 16
               else (7 * i) mod 16)
      in [d, b + word_rotl (S_md5 ! i) (f + a + T_md5 ! i + m ! g), b, c])"

definition md5_block :: "32 word list \<Rightarrow> bytes \<Rightarrow> 32 word list" where
  "md5_block hs blk = map2 (+) hs (foldl (md5_step (map le32 (chunks 4 blk))) hs [0..<64])"

definition md5 :: "bytes \<Rightarrow> bytes" where
  "md5 msg =
     concat (map le32_bytes
       (foldl md5_block [0x67452301, 0xefcdab89, 0x98badcfe, 0x10325476]
          (chunks 64 (md_pad msg @ le64_bytes (8 * of_nat (length msg))))))"

definition b64_alphabet :: string where
  "b64_alphabet = ''ABCDEFGHIJKLMNOPQRSTUVWXYZabcdefghijklmnopqrstuvwxyz0123456789+/''"

definition b64_char :: "nat \<Rightarrow> char" where
  "b64_char n = b64_alphabet ! (n mod 64)"

fun EncodeToString_b64 :: "bytes \<Rightarrow> string" where
  "EncodeToString_b64 (x # y # z # rest) =
     (let a = of_char x; b = of_char y; c = (of_char z :: nat)
      in b64_char (a div 4) # b64_char (a mod 4 * 16 + b div 16) #
         b64_char (b mod 16 * 4 + c div 64) # b64_char c # EncodeToString_b64 rest)"
| "EncodeToString_b64 [x, y] =
     (let a = of_char x; b = (of_char y :: nat)
      in [b64_char (a div 4), b64_char (a mod 4 * 16 + b div 16), b64_char (b mod 16 * 4), CHR ''=''])"
| "EncodeToString_b64 [x] =
     (let a = (of_char x :: nat)
      in [b64_char (a div 4), b64_char (a mod 4 * 16), CHR ''='', CHR ''=''])"
| "EncodeToString_b64 [] = []"

section \<open>Package wmf: the Hawk authenticator (hawk.go)\<close>

text \<open>
  What the code reads of an \<^verbatim>\<open>*http.Request\<close>: the method, the \<^verbatim>\<open>Host\<close>, the
  parts of the URL, and the two headers it asks for with \<^verbatim>\<open>Header.Get\<close>, which
  gives the empty string for a header that is absent.
\<close>

record request =
  req_Method :: string
  req_Host :: string
  URL_Scheme :: string
  URL_Path :: string
  URL_RawQuery :: string
  URL_Fragment :: string
  hdr_Authorization :: string
  hdr_ContentType :: string

text \<open>
  The flags that \<^verbatim>\<open>util.MzGetFlag\<close> reads from the configuration.
  \<open>show_hash\<close> only switches debug logging on; the logger is not part of the model.
\<close>

record config =
  override_port :: bool
  show_hash :: bool

record Hawk =
  config :: config
  header :: string
  Id_hawk :: string
  Time :: string
  Nonce :: string
  Method :: string
  Path :: string
  Host :: string
  Port :: string
  Extra :: string
  Hash :: string
  Signature :: string

datatype hawk_error = ErrNoAuth | ErrNotHawkAuth | ErrInvalidSignature

text \<open>
  What a call reads from outside the program: the bytes \<^verbatim>\<open>rand.Read\<close> delivers and
  the clock, \<^verbatim>\<open>time.Now().UTC().Unix()\<close>.
\<close>

record env =
  rand_bytes :: bytes
  now_unix :: int

text \<open>
  \<open>GenNonce\<close>: the buffer is zero-filled and the result of \<^verbatim>\<open>rand.Read\<close> is not
  checked, so bytes the source did not deliver stay zero.
\<close>

definition GenNonce :: "env \<Rightarrow> nat \<Rightarrow> string" where
  "GenNonce ev l =
     (let l' = (if l = 0 then 6 else l)
      in EncodeToString_b64 (take l' (rand_bytes ev @ replicate l' (byte 0))))"

definition getFullPath :: "request \<Rightarrow> string" where
  "getFullPath req =
     (let path = URL_Path req;
          path = (if 0 < length (URL_RawQuery req) then path @ ''?'' @ URL_RawQuery req else path);
          path = (if 0 < length (URL_Fragment req) then path @ ''#'' @ URL_Fragment req else path)
      in path)"

definition getHostPort :: "Hawk \<Rightarrow> request \<Rightarrow> string \<times> string" where
  "getHostPort self req =
     (let elements = Split (req_Host req) '':'';
          host = hd elements;
          port = (if length elements = 2 then elements ! 1 else []);
          port = (if port = [] \<or> override_port (config self)
                  then (if URL_Scheme req = ''https'' then ''443'' else ''80'')
                  else port)
      in (host, port))"

text \<open>The string that \<open>genHash\<close> digests.\<close>

definition payloadStr :: "string \<Rightarrow> string \<Rightarrow> string" where
  "payloadStr contentType nbody =
     ''hawk.1.payload'' @ [newline] @ contentType @ [newline] @ nbody @ [newline]"

definition genHash :: "Hawk \<Rightarrow> request \<Rightarrow> string \<Rightarrow> string" where
  "genHash self req body =
     (let contentType = hdr_ContentType req;
          contentType = (if contentType = [] then ''text/plain'' else contentType);
          contentType = hd (Split contentType '';'');
          nbody = Replace body [backslash] [backslash, backslash];
          nbody = Replace nbody [newline] [backslash, CHR ''n''];
          marshalStr = payloadStr contentType nbody
      in EncodeToString_b64 (sha256 marshalStr))"

text \<open>The string that \<open>GenerateSignature\<close> authenticates.\<close>

definition headerStr :: "Hawk \<Rightarrow> string \<Rightarrow> string" where
  "headerStr self extra =
     ''hawk.1.header'' @ [newline] @ Time self @ [newline] @ Nonce self @ [newline] @
     ToUpper (Method self) @ [newline] @ Path self @ [newline] @ ToLower (Host self) @ [newline] @
     Port self @ [newline] @ Hash self @ [newline] @ extra @ [newline]"

text \<open>
  \<open>GenerateSignature\<close> fills each field that is still empty, one \<^verbatim>\<open>if\<close> statement
  of the source after the other, and then sets \<open>Signature\<close>. Its error result is always
  nil, so the model returns the updated receiver only.
\<close>

definition fillPath :: "Hawk \<Rightarrow> request \<Rightarrow> Hawk" where
  "fillPath self req = (if Path self = [] then self\<lparr>Path := getFullPath req\<rparr> else self)"

definition fillHost :: "Hawk \<Rightarrow> request \<Rightarrow> Hawk" where
  "fillHost self req =
     (if Host self = []
      then self\<lparr>Host := fst (getHostPort self req), Port := snd (getHostPort self req)\<rparr>
      else self)"

definition fillNonce :: "Hawk \<Rightarrow> env \<Rightarrow> Hawk" where
  "fillNonce self ev = (if Nonce self = [] then self\<lparr>Nonce := GenNonce ev 6\<rparr> else self)"

definition fillTime :: "Hawk \<Rightarrow> env \<Rightarrow> Hawk" where
  "fillTime self ev = (if Time self = [] then self\<lparr>Time := FormatInt (now_unix ev)\<rparr> else self)"

definition fillMethod :: "Hawk \<Rightarrow> request \<Rightarrow> Hawk" where
  "fillMethod self req =
     (if Method self = [] then self\<lparr>Method := ToUpper (req_Method req)\<rparr> else self)"

definition fillHash :: "Hawk \<Rightarrow> request \<Rightarrow> string \<Rightarrow> Hawk" where
  "fillHash self req body = (if Hash self = [] then self\<lparr>Hash := genHash self req body\<rparr> else self)"

definition GenerateSignature :: "env \<Rightarrow> Hawk \<Rightarrow> request \<Rightarrow> string \<Rightarrow> string \<Rightarrow> string \<Rightarrow> Hawk" where
  "GenerateSignature ev self req extra body secret =
     (let self = fillPath self req;
          self = fillHost self req;
          self = fillNonce self ev;
          self = fillTime self ev;
          self = fillMethod self req;
          self = fillHash self req body
      in self\<lparr>Signature := EncodeToString_b64 (hmac_sha256 secret (headerStr self extra))\<rparr>)"

definition quoted :: "string \<Rightarrow> string" where
  "quoted s = dquote # s @ [dquote]"

text \<open>\<open>AsHeader\<close> returns the header and leaves the receiver signed.\<close>

definition AsHeader ::
  "env \<Rightarrow> Hawk \<Rightarrow> request \<Rightarrow> string \<Rightarrow> string \<Rightarrow> string \<Rightarrow> string \<Rightarrow> string \<times> Hawk" where
  "AsHeader ev self req id' body extra secret =
     (let self = (if Signature self = [] then GenerateSignature ev self req extra body secret
                  else self)
      in (''Hawk id='' @ quoted id' @ '', ts='' @ quoted (Time self) @
          '', nonce='' @ quoted (Nonce self) @ '' ext='' @ quoted (Extra self) @
          '', hash='' @ quoted (Hash self) @ '' mac='' @ quoted (Signature self), self))"

text \<open>One \<open>key="value"\<close> element of the Authorization header.\<close>

definition parseElement :: "Hawk \<Rightarrow> string \<Rightarrow> Hawk" where
  "parseElement self element =
     (let kv = SplitN element ''='' 2
      in if length kv < 2 then self
         else (let val = Trim (kv ! 1) [dquote];
                   k = ToLower (kv ! 0)
               in if k = ''id'' then self\<lparr>Id_hawk := val\<rparr>
                  else if k = ''ts'' then self\<lparr>Time := val\<rparr>
                  else if k = ''nonce'' then self\<lparr>Nonce := val\<rparr>
                  else if k = ''ext'' then self\<lparr>Extra := val\<rparr>
                  else if k = ''hash'' then self\<lparr>Hash := val\<rparr>
                  else if k = ''mac'' then self\<lparr>Signature := val\<rparr>
                  else self))"

text \<open>
  \<open>ParseAuthHeader\<close>: the slice expressions \<^verbatim>\<open>auth[:4]\<close> and \<^verbatim>\<open>auth[5:]\<close> panic
  when the header is shorter than 4, respectively 5, bytes.
\<close>

definition ParseAuthHeader :: "Hawk \<Rightarrow> request \<Rightarrow> (hawk_error option \<times> Hawk) outcome" where
  "ParseAuthHeader self req =
     (let auth = hdr_Authorization req
      in if auth = [] then Returns (Some ErrNoAuth, self)
         else if length auth < 4 then Panics SliceBoundsOutOfRange
         else if ToLower (take 4 auth) \<noteq> ''hawk'' then Returns (Some ErrNotHawkAuth, self)
         else if length auth < 5 then Panics SliceBoundsOutOfRange
         else (let elements = Split (drop 5 auth) '', '';
                   self = foldl parseElement self elements;
                   self = self\<lparr>Path := getFullPath req\<rparr>;
                   self = self\<lparr>Host := fst (getHostPort self req), Port := snd (getHostPort self req)\<rparr>
               in Returns (None, self)))"


section \<open>Package storage: the PostgreSQL store\<close>

text \<open>
  The tables the modelled statements read and write, as lists of rows in insertion
  order. Times are PostgreSQL timestamps, counted in microseconds. The serial \<open>id\<close>
  column of \<open>pendingCommands\<close> is drawn from \<open>next_id\<close>.

  A statement sent to the database can fail. \<open>faults\<close> lists, for the calls to come and
  in their order, whether the call fails; once the list is used up every call succeeds.
  A failed statement changes no table.
\<close>

datatype storage_error = ErrUnknownDevice | DriverError

record nonce_row =
  n_key :: string
  n_val :: string
  n_time :: int

record pending_row =
  c_id :: nat
  c_deviceId :: string
  c_time :: int
  c_cmd :: string
  c_type :: string

record 'f position_row =
  p_deviceId :: string
  p_time :: int
  p_latitude :: 'f
  p_longitude :: 'f
  p_altitude :: 'f
  p_accuracy :: 'f

record device_row =
  d_deviceId :: string
  d_lockable :: bool
  d_loggedin :: bool
  d_lastExchange :: int
  d_hawkSecret :: string
  d_accepts :: string
  d_pushUrl :: string
  d_accesstoken :: string

record 'f pgStore =
  nonce :: "nonce_row list"
  pendingCommands :: "pending_row list"
  position :: "'f position_row list"
  deviceInfo :: "device_row list"
  next_id :: nat
  faults :: "bool list"

text \<open>
  The Go struct \<open>Position\<close>, with \<open>'d\<close> for \<^verbatim>\<open>float64\<close>. The conversion
  \<^verbatim>\<open>float32(x)\<close> is a parameter \<open>f32\<close> of the functions that store a position.
\<close>

record 'd Position =
  Latitude :: 'd
  Longitude :: 'd
  Altitude :: 'd
  Accuracy :: 'd
  Time_pos :: int

text \<open>One call to the database: whether it fails, and the store with the fault used up.\<close>

definition db_call :: "'f pgStore \<Rightarrow> bool \<times> 'f pgStore" where
  "db_call st = (case faults st of [] \<Rightarrow> (False, st) | f # fs \<Rightarrow> (f, st\<lparr>faults := fs\<rparr>))"

definition five_minutes :: int where
  "five_minutes = 300000000"

definition genSig :: "string \<Rightarrow> string \<Rightarrow> string" where
  "genSig key val = EncodeToString_hex (md5 (key @ ''.'' @ val))"

text \<open>
  \<open>GetNonce\<close>. \<open>key\<close> and \<open>val\<close> are the two identifiers that \<^verbatim>\<open>util.GenUUID4\<close>
  delivers; \<open>now\<close> is \<^verbatim>\<open>current_timestamp\<close>.
\<close>

definition GetNonce ::
  "int \<Rightarrow> string \<Rightarrow> string \<Rightarrow> 'f pgStore \<Rightarrow> (string \<times> storage_error option) outcome \<times> 'f pgStore" where
  "GetNonce now key val st =
     (let (insert_failed, st) = db_call st
      in if insert_failed then (Returns ([], Some DriverError), st)
         else (Returns (key @ ''.'' @ genSig key val, None),
               st\<lparr>nonce := nonce st @ [\<lparr>n_key = key, n_val = val, n_time = now\<rparr>]\<rparr>))"

text \<open>
  \<open>CheckNonce\<close>. The results of the two \<^verbatim>\<open>dbh.Exec\<close> calls are dropped. When
  \<^verbatim>\<open>dbh.Query\<close> fails it returns a nil \<^verbatim>\<open>*Rows\<close>; \<^verbatim>\<open>defer rows.Close()\<close>
  was registered before the error is looked at, so the deferred call dereferences nil
  when the function returns. \<^verbatim>\<open>limit 1\<close> without an order takes the first matching
  row of the table.
\<close>

definition CheckNonce ::
  "int \<Rightarrow> string \<Rightarrow> 'f pgStore \<Rightarrow> (bool \<times> storage_error option) outcome \<times> 'f pgStore" where
  "CheckNonce now nonce_str st =
     (let (gc_failed, st) = db_call st;
          st = (if gc_failed then st
                else st\<lparr>nonce := filter (\<lambda>r. \<not> n_time r < now - five_minutes) (nonce st)\<rparr>);
          keysig = SplitN nonce_str ''.'' 2
      in if length keysig \<noteq> 2 then (Returns (False, None), st)
         else (let (query_failed, st) = db_call st
               in if query_failed then (Panics NilPointerDereference, st)
                  else (case filter (\<lambda>r. n_key r = keysig ! 0) (nonce st) of
                          [] \<Rightarrow> (Returns (False, None), st)
                        | row # _ \<Rightarrow>
                            (let (scan_failed, st) = db_call st
                             in if scan_failed then (Returns (False, Some DriverError), st)
                                else (let (delete_failed, st) = db_call st;
                                          st = (if delete_failed then st
                                                else st\<lparr>nonce := filter (\<lambda>r. n_key r \<noteq> keysig ! 0)
                                                                     (nonce st)\<rparr>)
                                      in (Returns (genSig (keysig ! 0) (n_val row) = keysig ! 1, None),
                                          st))))))"

definition Touch :: "int \<Rightarrow> string \<Rightarrow> 'f pgStore \<Rightarrow> storage_error option \<times> 'f pgStore" where
  "Touch now devId st =
     (let (update_failed, st) = db_call st
      in if update_failed then (Some DriverError, st)
         else (None, st\<lparr>deviceInfo :=
                 map (\<lambda>d. if d_deviceId d = devId then d\<lparr>d_lastExchange := now\<rparr> else d)
                   (deviceInfo st)\<rparr>))"

text \<open>
  \<^verbatim>\<open>order by time limit 1\<close>: the row with the least time; among rows of equal time
  the model takes the first of the table.
\<close>

definition oldest :: "pending_row list \<Rightarrow> pending_row option" where
  "oldest rows =
     (case rows of
        [] \<Rightarrow> None
      | r # rs \<Rightarrow> Some (foldl (\<lambda>m x. if c_time x < c_time m then x else m) r rs))"

text \<open>
  \<open>GetPending\<close>. The error of \<^verbatim>\<open>dbh.Query\<close> is never looked at: when the query
  fails, \<^verbatim>\<open>rows\<close> is nil and \<^verbatim>\<open>rows.Next()\<close> dereferences it. The results of
  the delete and of \<open>Touch\<close> are dropped. The timer metric is not part of the model.
\<close>

definition GetPending ::
  "int \<Rightarrow> string \<Rightarrow> 'f pgStore \<Rightarrow> (string \<times> string \<times> storage_error option) outcome \<times> 'f pgStore" where
  "GetPending now devId st =
     (let (query_failed, st) = db_call st
      in if query_failed then (Panics NilPointerDereference, st)
         else (case oldest (filter (\<lambda>r. c_deviceId r = devId) (pendingCommands st)) of
                 None \<Rightarrow> (Returns ([], [], None), snd (Touch now devId st))
               | Some row \<Rightarrow>
                   (let (scan_failed, st) = db_call st
                    in if scan_failed then (Returns ([], [], Some DriverError), st)
                       else (let (delete_failed, st) = db_call st;
                                 st = (if delete_failed then st
                                       else st\<lparr>pendingCommands :=
                                              filter (\<lambda>r. c_id r \<noteq> c_id row) (pendingCommands st)\<rparr>)
                             in (Returns (c_cmd row, c_type row, None), snd (Touch now devId st))))))"

text \<open>
  \<open>StoreCommand\<close>: update the rows of the key, insert when none was updated.
  \<^verbatim>\<open>RowsAffected\<close> does not fail with this driver.
\<close>

definition StoreCommand ::
  "int \<Rightarrow> string \<Rightarrow> string \<Rightarrow> string \<Rightarrow> 'f pgStore \<Rightarrow> storage_error option outcome \<times> 'f pgStore" where
  "StoreCommand now devId command cType st =
     (let (update_failed, st) = db_call st
      in if update_failed then (Returns (Some DriverError), st)
         else (let hit = (\<lambda>r. c_deviceId r = devId \<and> c_type r = cType);
                   cnt = length (filter hit (pendingCommands st));
                   st = st\<lparr>pendingCommands :=
                          map (\<lambda>r. if hit r then r\<lparr>c_time := now, c_cmd := command\<rparr> else r)
                            (pendingCommands st)\<rparr>
               in if cnt = 0
                  then (let (insert_failed, st) = db_call st
                        in if insert_failed then (Returns (Some DriverError), st)
                           else (Returns None,
                                 st\<lparr>pendingCommands := pendingCommands st @
                                       [\<lparr>c_id = next_id st, c_deviceId = devId, c_time = now,
                                         c_cmd = command, c_type = cType\<rparr>],
                                     next_id := Suc (next_id st)\<rparr>))
                  else (Returns None, st)))"

definition PurgePosition :: "string \<Rightarrow> 'f pgStore \<Rightarrow> storage_error option \<times> 'f pgStore" where
  "PurgePosition devId st =
     (let (delete_failed, st) = db_call st
      in if delete_failed then (Some DriverError, st)
         else (None, st\<lparr>position := filter (\<lambda>r. p_deviceId r \<noteq> devId) (position st)\<rparr>))"

text \<open>
  \<open>SetDeviceLocation\<close>. The result of \<open>PurgePosition\<close> is dropped. The error of
  \<^verbatim>\<open>dbh.Prepare\<close> is overwritten before it is looked at: when Prepare fails the
  statement is nil and \<^verbatim>\<open>st.Exec\<close> dereferences it.
\<close>

definition SetDeviceLocation ::
  "('d \<Rightarrow> 'f) \<Rightarrow> int \<Rightarrow> string \<Rightarrow> 'd Position \<Rightarrow> 'f pgStore \<Rightarrow>
     storage_error option outcome \<times> 'f pgStore" where
  "SetDeviceLocation f32 now devId pos st =
     (let st = snd (PurgePosition devId st);
          (prepare_failed, st) = db_call st
      in if prepare_failed then (Panics NilPointerDereference, st)
         else (let (insert_failed, st) = db_call st
               in if insert_failed then (Returns (Some DriverError), st)
                  else (Returns None,
                        st\<lparr>position := position st @
                              [\<lparr>p_deviceId = devId, p_time = now,
                                p_latitude = f32 (Latitude pos), p_longitude = f32 (Longitude pos),
                                p_altitude = f32 (Altitude pos), p_accuracy = f32 (Accuracy pos)\<rparr>]\<rparr>)))"

section \<open>Notions used to state the properties\<close>

text \<open>The body as \<open>genHash\<close> escapes it, and the string \<open>genHash\<close> digests.\<close>

definition escapeBody :: "string \<Rightarrow> string" where
  "escapeBody body =
     Replace (Replace body [backslash] [backslash, backslash]) [newline] [backslash, CHR ''n'']"

definition payload :: "request \<Rightarrow> string \<Rightarrow> string" where
  "payload req body =
     payloadStr (hd (Split (if hdr_ContentType req = [] then ''text/plain'' else hdr_ContentType req) '';''))
       (escapeBody body)"


text \<open>A store none of whose coming database calls fails.\<close>

definition healthy :: "'f pgStore \<Rightarrow> bool" where
  "healthy st = (faults st = [])"

text \<open>The pending commands of one key, and of one device.\<close>

definition pendingFor :: "string \<Rightarrow> string \<Rightarrow> 'f pgStore \<Rightarrow> pending_row list" where
  "pendingFor devId cType st =
     filter (\<lambda>r. c_deviceId r = devId \<and> c_type r = cType) (pendingCommands st)"

definition positionsOf :: "string \<Rightarrow> 'f pgStore \<Rightarrow> 'f position_row list" where
  "positionsOf devId st = filter (\<lambda>r. p_deviceId r = devId) (position st)"

text \<open>
  The shape the interface description gives for the outbound header: six
  \<open>key="value"\<close> pairs, separated by a comma and a space.
\<close>

definition claimed_header :: "string \<Rightarrow> Hawk \<Rightarrow> string" where
  "claimed_header id' self =
     ''Hawk id='' @ quoted id' @ '', ts='' @ quoted (Time self) @
     '', nonce='' @ quoted (Nonce self) @ '', ext='' @ quoted (Extra self) @
     '', hash='' @ quoted (Hash self) @ '', mac='' @ quoted (Signature self)"

section \<open>Example values\<close>





definition emptyStore :: "'f pgStore" where
  "emptyStore = \<lparr>nonce = [], pendingCommands = [], position = [], deviceInfo = [], next_id = 0, faults = []\<rparr>"

text \<open>A store that holds one nonce, issued at time 0.\<close>

definition nonceIssued :: "unit pgStore" where
  "nonceIssued = snd (GetNonce 0 ''k1'' ''v1'' emptyStore)"

text \<open>
  A device with an \<open>erase\<close> command queued at time 1, and then two \<open>lock\<close> commands
  stored at times 2 and 3.
\<close>

definition eraseQueued :: "unit pgStore" where
  "eraseQueued = snd (StoreCommand 1 ''dev-1'' ''e'' ''erase'' emptyStore)"

definition lockQueuedTwice :: "unit pgStore" where
  "lockQueuedTwice =
     snd (StoreCommand 3 ''dev-1'' ''p2'' ''lock'' (snd (StoreCommand 2 ''dev-1'' ''p1'' ''lock'' eraseQueued)))"

text \<open>A store in which the device has an \<open>erase\<close> command dated 10.\<close>

definition laterErase :: "unit pgStore" where
  "laterErase = snd (StoreCommand 10 ''dev-1'' ''e'' ''erase'' emptyStore)"

section \<open>Test vectors of the digests and encodings\<close>

text \<open>
  The embedded digests and encodings at the standard test vectors (FIPS 180-4 B.1,
  RFC 1321 A.5, RFC 4648 section 10), evaluated in the logic.
\<close>

lemma sha256_abc:
  "EncodeToString_hex (sha256 ''abc'') =
     ''ba7816bf8f01cfea414140de5dae2223b00361a396177a9cb410ff61f20015ad''"
  by code_simp

lemma md5_abc: "EncodeToString_hex (md5 ''abc'') = ''900150983cd24fb0d6963f7d28e17f72''"
  by code_simp

lemma b64_foobar:
  "EncodeToString_b64 ''foobar'' = ''Zm9vYmFy''"
  "EncodeToString_b64 ''fooba'' = ''Zm9vYmE=''"
  "EncodeToString_b64 ''foob'' = ''Zm9vYg==''"
  by code_simp+

lemma FormatInt_examples:
  "FormatInt 1400000000 = ''1400000000''" "FormatInt 0 = ''0''" "FormatInt (- 15) = ''-15''"
  by (simp_all add: FormatInt_def digits.simps digit_def char_of_eq_iff)

lemma ToLower_example: "ToLower ''Hawk Id=X'' = ''hawk id=x''"
  by (simp add: ToLower_def lower_byte_def char_of_eq_iff)

lemma Split_example: "Split ''a, b,c, d'' '', '' = [''a'', ''b,c'', ''d'']"
  by (simp add: Split_def HasPrefix_def)

section \<open>Facts about the string functions\<close>

lemma Cut_no_sep: "c \<notin> set s \<Longrightarrow> Cut s [c] = None"
  by (induction s) (auto simp: HasPrefix_def)

lemma Cut_first: "c \<notin> set k \<Longrightarrow> Cut (k @ c # rest) [c] = Some (k, rest)"
  by (induction k) (auto simp: HasPrefix_def)

lemma SplitN_nonempty: "SplitN s sep (Suc n) \<noteq> []"
  by (cases n) (auto split: option.splits)

lemma Split_nonempty: "Split s sep \<noteq> []"
  by (simp add: Split_def SplitN_nonempty)

lemma Split_no_sep: "c \<notin> set s \<Longrightarrow> Split s [c] = [s]"
  by (cases s) (auto simp: Split_def Cut_no_sep HasPrefix_def)

lemma hd_Split_first: "c \<notin> set k \<Longrightarrow> hd (Split (k @ c # rest) [c]) = k"
  by (simp add: Split_def Cut_first)

lemma SplitN_2: "SplitN s sep 2 = (case Cut s sep of None \<Rightarrow> [s] | Some (b, a) \<Rightarrow> [b, a])"
  by (simp add: numeral_2_eq_2 split: option.splits)

lemma Cut_sep_found: "Cut (a @ c # b) [c] \<noteq> None"
  by (induction a) (auto simp: HasPrefix_def split: option.splits)

lemma SplitN_2_malformed: "c \<notin> set s \<Longrightarrow> SplitN s [c] 2 = [s]"
  by (simp add: SplitN_2 Cut_no_sep)

lemma SplitN_2_keysig: "c \<notin> set k \<Longrightarrow> SplitN (k @ c # sg) [c] 2 = [k, sg]"
  by (simp add: SplitN_2 Cut_first)

lemma length_SplitN_2_found: "length (SplitN (a @ c # b) [c] 2) = 2"
  using Cut_sep_found [of a c b] by (auto simp: SplitN_2 split: option.splits)







section \<open>Base64 without its padding is injective\<close>






















section \<open>The payload hash\<close>





lemma genHash_digest: "genHash self req body = EncodeToString_b64 (sha256 (payload req body))"
  by (simp add: genHash_def payload_def escapeBody_def Let_def)

lemma genHash_payload:
  "genHash self req body =
     EncodeToString_b64 (sha256 (payloadStr
       (hd (Split (if hdr_ContentType req = [] then ''text/plain'' else hdr_ContentType req) '';''))
       (Replace (Replace body [backslash] [backslash, backslash]) [newline] [backslash, CHR ''n''])))"
  by (simp add: genHash_def Let_def)

lemma genHash_strips_parameters:
  assumes "ct \<noteq> []" and "CHR '';'' \<notin> set ct"
  shows "genHash self (req\<lparr>hdr_ContentType := ct @ CHR '';'' # params\<rparr>) body =
         genHash self (req\<lparr>hdr_ContentType := ct\<rparr>) body"
  using assms by (simp add: genHash_payload hd_Split_first Split_no_sep)

text \<open>
  Claim C9. For every request body, the payload hash computed with the content type
  \<open>application/json;charset=UTF-8\<close> is the payload hash computed with
  \<open>application/json\<close>: the content type is cut at the first \<open>;\<close> before it enters
  the digested string, which is \<open>hawk.1.payload\<close>, the content type and the escaped body,
  each followed by a newline.
\<close>

theorem genHash_charset_suffix:
  "genHash self (req\<lparr>hdr_ContentType := ''application/json;charset=UTF-8''\<rparr>) body =
     genHash self (req\<lparr>hdr_ContentType := ''application/json''\<rparr>) body \<and>
   genHash self (req\<lparr>hdr_ContentType := ''application/json;charset=UTF-8''\<rparr>) body =
     EncodeToString_b64 (sha256 (''hawk.1.payload'' @ [newline] @ ''application/json'' @ [newline] @
       Replace (Replace body [backslash] [backslash, backslash]) [newline] [backslash, CHR ''n''] @
       [newline]))"
  by (simp add: genHash_payload payloadStr_def Split_def HasPrefix_def)

section \<open>The Authorization header\<close>

text \<open>
  Claim C4. The header \<open>AsHeader\<close> renders has no comma after the \<open>nonce\<close> pair and
  none after the \<open>hash\<close> pair: for every input it is the string below, which is never
  the comma-separated shape of six pairs.
\<close>

theorem AsHeader_misses_commas:
  "fst (AsHeader ev self req id' body extra secret) =
     ''Hawk id='' @ quoted id' @ '', ts='' @ quoted (Time (snd (AsHeader ev self req id' body extra secret))) @
     '', nonce='' @ quoted (Nonce (snd (AsHeader ev self req id' body extra secret))) @
     '' ext='' @ quoted (Extra (snd (AsHeader ev self req id' body extra secret))) @
     '', hash='' @ quoted (Hash (snd (AsHeader ev self req id' body extra secret))) @
     '' mac='' @ quoted (Signature (snd (AsHeader ev self req id' body extra secret))) \<and>
   fst (AsHeader ev self req id' body extra secret) \<noteq>
     claimed_header id' (snd (AsHeader ev self req id' body extra secret))"
  by (simp add: AsHeader_def Let_def claimed_header_def quoted_def)

text \<open>
  Claim C10. \<open>ParseAuthHeader\<close> panics with a slice bound out of range exactly on the
  non-empty Authorization headers that are shorter than four bytes, or that consist of the
  four bytes of the scheme name alone; on every other request it returns.
\<close>

theorem ParseAuthHeader_panics_iff:
  "(ParseAuthHeader self req = Panics SliceBoundsOutOfRange) =
     (hdr_Authorization req \<noteq> [] \<and>
      (length (hdr_Authorization req) < 4 \<or>
       length (hdr_Authorization req) = 4 \<and> ToLower (hdr_Authorization req) = ''hawk''))"
  by (auto simp: ParseAuthHeader_def Let_def)

section \<open>Signing and comparing\<close>

lemma fillPath_fields [simp]:
  "Path (fillPath s req) = (if Path s = [] then getFullPath req else Path s)"
  "Host (fillPath s req) = Host s" "Port (fillPath s req) = Port s" "Nonce (fillPath s req) = Nonce s"
  "Time (fillPath s req) = Time s" "Method (fillPath s req) = Method s" "Hash (fillPath s req) = Hash s"
  "Extra (fillPath s req) = Extra s" "config (fillPath s req) = config s"
  by (simp_all add: fillPath_def)

lemma getHostPort_fillPath [simp]: "getHostPort (fillPath s r) req = getHostPort s req"
  by (simp add: getHostPort_def)

lemma getHostPort_update [simp]:
  "getHostPort (s\<lparr>Nonce := n\<rparr>) req = getHostPort s req"
  "getHostPort (s\<lparr>Time := t\<rparr>) req = getHostPort s req"
  by (simp_all add: getHostPort_def)

lemma fillHost_fields [simp]:
  "Path (fillHost s req) = Path s"
  "Host (fillHost s req) = (if Host s = [] then fst (getHostPort s req) else Host s)"
  "Port (fillHost s req) = (if Host s = [] then snd (getHostPort s req) else Port s)"
  "Nonce (fillHost s req) = Nonce s"
  "Time (fillHost s req) = Time s" "Method (fillHost s req) = Method s" "Hash (fillHost s req) = Hash s"
  "Extra (fillHost s req) = Extra s" "config (fillHost s req) = config s"
  by (simp_all add: fillHost_def)

lemma fillNonce_fields [simp]:
  "Path (fillNonce s ev) = Path s" "Host (fillNonce s ev) = Host s" "Port (fillNonce s ev) = Port s"
  "Nonce (fillNonce s ev) = (if Nonce s = [] then GenNonce ev 6 else Nonce s)"
  "Time (fillNonce s ev) = Time s" "Method (fillNonce s ev) = Method s" "Hash (fillNonce s ev) = Hash s"
  "Extra (fillNonce s ev) = Extra s" "config (fillNonce s ev) = config s"
  by (simp_all add: fillNonce_def)

lemma fillTime_fields [simp]:
  "Path (fillTime s ev) = Path s" "Host (fillTime s ev) = Host s" "Port (fillTime s ev) = Port s"
  "Nonce (fillTime s ev) = Nonce s"
  "Time (fillTime s ev) = (if Time s = [] then FormatInt (now_unix ev) else Time s)"
  "Method (fillTime s ev) = Method s" "Hash (fillTime s ev) = Hash s"
  "Extra (fillTime s ev) = Extra s" "config (fillTime s ev) = config s"
  by (simp_all add: fillTime_def)

lemma fillMethod_fields [simp]:
  "Path (fillMethod s req) = Path s" "Host (fillMethod s req) = Host s" "Port (fillMethod s req) = Port s"
  "Nonce (fillMethod s req) = Nonce s" "Time (fillMethod s req) = Time s"
  "Method (fillMethod s req) = (if Method s = [] then ToUpper (req_Method req) else Method s)"
  "Hash (fillMethod s req) = Hash s"
  "Extra (fillMethod s req) = Extra s" "config (fillMethod s req) = config s"
  by (simp_all add: fillMethod_def)

lemma fillHash_fields [simp]:
  "Path (fillHash s req body) = Path s" "Host (fillHash s req body) = Host s"
  "Port (fillHash s req body) = Port s" "Nonce (fillHash s req body) = Nonce s"
  "Time (fillHash s req body) = Time s" "Method (fillHash s req body) = Method s"
  "Hash (fillHash s req body) =
     (if Hash s = [] then EncodeToString_b64 (sha256 (payload req body)) else Hash s)"
  "Extra (fillHash s req body) = Extra s" "config (fillHash s req body) = config s"
  by (simp_all add: fillHash_def genHash_digest)














section \<open>The nonce store\<close>

lemma db_call_healthy: "faults st = [] \<Longrightarrow> db_call st = (False, st)"
  by (simp add: db_call_def)

lemma db_call_fault: "faults st = f # fs \<Longrightarrow> db_call st = (f, st\<lparr>faults := fs\<rparr>)"
  by (simp add: db_call_def)

lemma CheckNonce_malformed:
  "CHR ''.'' \<notin> set s \<Longrightarrow> fst (CheckNonce now s st) = Returns (False, None)"
  by (simp add: CheckNonce_def Let_def SplitN_2_malformed split: prod.splits)

lemma CheckNonce_scan_failure:
  "CHR ''.'' \<notin> set k \<Longrightarrow>
   fst (CheckNonce now (k @ ''.'' @ sg)
     (st\<lparr>nonce := \<lparr>n_key = k, n_val = v, n_time = now\<rparr> # rows, faults := [False, False, True]\<rparr>)) =
   Returns (False, Some DriverError)"
  by (simp add: CheckNonce_def Let_def db_call_def SplitN_2_keysig five_minutes_def)

text \<open>
  Claim C7. When the lookup query fails, \<open>CheckNonce\<close> does not return the error: for
  every nonce string with a \<open>.\<close> the call ends in the nil dereference of the deferred
  \<^verbatim>\<open>rows.Close()\<close>, whether or not the purge before it failed. (A string without
  \<open>.\<close> is answered \<open>(false, nil)\<close> before any lookup: \<open>CheckNonce_malformed\<close>.)
\<close>

theorem CheckNonce_query_failure:
  "CheckNonce now (k @ ''.'' @ sg) (st\<lparr>faults := gc # True # fs\<rparr>) =
     (Panics NilPointerDereference,
      st\<lparr>nonce := (if gc then nonce st
                    else filter (\<lambda>r. \<not> n_time r < now - five_minutes) (nonce st)),
         faults := fs\<rparr>)"
  using length_SplitN_2_found [of k "CHR ''.''" sg]
  by (simp add: CheckNonce_def Let_def db_call_def)

lemma GetNonce_healthy:
  "healthy st \<Longrightarrow>
   GetNonce now key val st =
     (Returns (key @ ''.'' @ genSig key val, None),
      st\<lparr>nonce := nonce st @ [\<lparr>n_key = key, n_val = val, n_time = now\<rparr>]\<rparr>)"
  by (simp add: GetNonce_def healthy_def db_call_healthy)

lemma CheckNonce_healthy:
  "healthy st \<Longrightarrow> CHR ''.'' \<notin> set key \<Longrightarrow>
   CheckNonce now (key @ CHR ''.'' # sg) st =
     (case filter (\<lambda>r. n_key r = key) (filter (\<lambda>r. \<not> n_time r < now - five_minutes) (nonce st)) of
        [] \<Rightarrow> (Returns (False, None),
               st\<lparr>nonce := filter (\<lambda>r. \<not> n_time r < now - five_minutes) (nonce st)\<rparr>)
      | row # _ \<Rightarrow> (Returns (genSig key (n_val row) = sg, None),
               st\<lparr>nonce := filter (\<lambda>r. n_key r \<noteq> key)
                    (filter (\<lambda>r. \<not> n_time r < now - five_minutes) (nonce st))\<rparr>))"
  by (simp add: CheckNonce_def healthy_def db_call_healthy Let_def SplitN_2_keysig split: list.splits)

text \<open>
  On a store whose calls succeed, for a nonce that \<open>GetNonce\<close> returns for a fresh key
  without a \<open>.\<close>, a \<open>CheckNonce\<close> within five minutes of the issue returns true and
  leaves no row of the key; a second \<open>CheckNonce\<close> with the same string, at any time,
  returns false without an error.
\<close>

lemma nonce_accepted_exactly_once:
  assumes "healthy st"
    and "CHR ''.'' \<notin> set key"
    and "key \<notin> n_key ` set (nonce st)"
    and "\<not> t0 < t1 - five_minutes"
    and "GetNonce t0 key val st = (Returns (n, None), st1)"
  shows "fst (CheckNonce t1 n st1) = Returns (True, None) \<and>
         key \<notin> n_key ` set (nonce (snd (CheckNonce t1 n st1))) \<and>
         fst (CheckNonce t2 n (snd (CheckNonce t1 n st1))) = Returns (False, None)"
proof -
  from assms(1,5) have n: "n = key @ ''.'' @ genSig key val"
    and st1: "st1 = st\<lparr>nonce := nonce st @ [\<lparr>n_key = key, n_val = val, n_time = t0\<rparr>]\<rparr>"
    by (simp_all add: GetNonce_healthy)
  have h1: "healthy st1" using assms(1) by (simp add: st1 healthy_def)
  have none: "filter (\<lambda>r. n_key r = key) (filter (\<lambda>r. \<not> n_time r < t1 - five_minutes) (nonce st)) = []"
    using assms(3) by (auto simp: filter_empty_conv)
  have "CheckNonce t1 n st1 =
      (case filter (\<lambda>r. n_key r = key)
              (filter (\<lambda>r. \<not> n_time r < t1 - five_minutes) (nonce st1)) of
         [] \<Rightarrow> (Returns (False, None),
                st1\<lparr>nonce := filter (\<lambda>r. \<not> n_time r < t1 - five_minutes) (nonce st1)\<rparr>)
       | row # _ \<Rightarrow> (Returns (genSig key (n_val row) = genSig key val, None),
                st1\<lparr>nonce := filter (\<lambda>r. n_key r \<noteq> key)
                     (filter (\<lambda>r. \<not> n_time r < t1 - five_minutes) (nonce st1))\<rparr>))"
    using CheckNonce_healthy [OF h1 assms(2), of t1 "genSig key val"] by (simp add: n)
  then have first: "CheckNonce t1 n st1 =
      (Returns (True, None),
       st1\<lparr>nonce := filter (\<lambda>r. n_key r \<noteq> key)
            (filter (\<lambda>r. \<not> n_time r < t1 - five_minutes) (nonce st1))\<rparr>)"
    using assms(4) none by (simp add: st1)
  let ?st2 = "snd (CheckNonce t1 n st1)"
  have h2: "healthy ?st2" using h1 by (simp add: first healthy_def)
  have gone: "key \<notin> n_key ` set (nonce ?st2)"
    by (auto simp: first)
  then have none2: "filter (\<lambda>r. n_key r = key)
      (filter (\<lambda>r. \<not> n_time r < t2 - five_minutes) (nonce ?st2)) = []"
    by (auto simp: filter_empty_conv)
  have second: "fst (CheckNonce t2 n ?st2) = Returns (False, None)"
    using CheckNonce_healthy [OF h2 assms(2), of t2 "genSig key val"] none2 by (simp add: n)
  from first gone second show ?thesis by simp
qed

text \<open>The same at the empty store, with each hypothesis discharged.\<close>

lemma nonce_accepted_exactly_once_witness:
  "healthy (emptyStore :: unit pgStore) \<and>
   GetNonce 5 ''k1'' ''v1'' (emptyStore :: unit pgStore) =
     (Returns (''k1.'' @ genSig ''k1'' ''v1'', None),
      emptyStore\<lparr>nonce := [\<lparr>n_key = ''k1'', n_val = ''v1'', n_time = 5\<rparr>]\<rparr>) \<and>
   fst (CheckNonce 10 (''k1.'' @ genSig ''k1'' ''v1'')
         (emptyStore\<lparr>nonce := [\<lparr>n_key = ''k1'', n_val = ''v1'', n_time = 5\<rparr>]\<rparr> :: unit pgStore)) =
     Returns (True, None) \<and>
   fst (CheckNonce 20 (''k1.'' @ genSig ''k1'' ''v1'')
         (snd (CheckNonce 10 (''k1.'' @ genSig ''k1'' ''v1'')
           (emptyStore\<lparr>nonce := [\<lparr>n_key = ''k1'', n_val = ''v1'', n_time = 5\<rparr>]\<rparr> :: unit pgStore)))) =
     Returns (False, None)"
proof -
  have h: "healthy (emptyStore :: unit pgStore)"
    by (simp add: healthy_def emptyStore_def)
  have k: "CHR ''.'' \<notin> set ''k1''" by simp
  have f: "''k1'' \<notin> n_key ` set (nonce (emptyStore :: unit pgStore))"
    by (simp add: emptyStore_def)
  have t: "\<not> (5::int) < 10 - five_minutes" by (simp add: five_minutes_def)
  have g: "GetNonce 5 ''k1'' ''v1'' (emptyStore :: unit pgStore) =
     (Returns (''k1.'' @ genSig ''k1'' ''v1'', None),
      emptyStore\<lparr>nonce := [\<lparr>n_key = ''k1'', n_val = ''v1'', n_time = 5\<rparr>]\<rparr>)"
    by (simp add: GetNonce_def db_call_def emptyStore_def)
  from nonce_accepted_exactly_once [OF h k f t g, of 20] h g show ?thesis by simp
qed

text \<open>
  Claim C2. \<open>CheckNonce\<close> drops the result of the delete that consumes the nonce. On
  the run below that delete fails: the first \<open>CheckNonce\<close> of the nonce that \<open>GetNonce\<close>
  returned gives true and the row stays, and the second \<open>CheckNonce\<close> with the same
  string gives true again, with no error.
\<close>

theorem CheckNonce_accepts_twice_when_delete_fails:
  "GetNonce 5 ''k1'' ''v1'' (emptyStore\<lparr>faults := [False, False, False, False, True]\<rparr> :: unit pgStore) =
     (Returns (''k1.'' @ genSig ''k1'' ''v1'', None),
      emptyStore\<lparr>nonce := [\<lparr>n_key = ''k1'', n_val = ''v1'', n_time = 5\<rparr>],
                 faults := [False, False, False, True]\<rparr>) \<and>
   CheckNonce 10 (''k1.'' @ genSig ''k1'' ''v1'')
     (emptyStore\<lparr>nonce := [\<lparr>n_key = ''k1'', n_val = ''v1'', n_time = 5\<rparr>],
                 faults := [False, False, False, True]\<rparr> :: unit pgStore) =
     (Returns (True, None),
      emptyStore\<lparr>nonce := [\<lparr>n_key = ''k1'', n_val = ''v1'', n_time = 5\<rparr>]\<rparr>) \<and>
   CheckNonce 20 (''k1.'' @ genSig ''k1'' ''v1'')
     (emptyStore\<lparr>nonce := [\<lparr>n_key = ''k1'', n_val = ''v1'', n_time = 5\<rparr>]\<rparr> :: unit pgStore) =
     (Returns (True, None), emptyStore)"
  by (simp add: GetNonce_def CheckNonce_def db_call_def emptyStore_def Let_def SplitN_2 HasPrefix_def
        five_minutes_def)

lemma CheckNonce_gc_first:
  assumes "\<not> fst (db_call st)"
  shows "CheckNonce now s st =
     CheckNonce now s (st\<lparr>nonce := filter (\<lambda>r. \<not> n_time r < now - five_minutes) (nonce st)\<rparr>)"
  using assms by (cases "faults st") (simp_all add: CheckNonce_def db_call_def Let_def)

text \<open>
  When the purge statement does not fail and every row of the nonce's key was issued more
  than five minutes before now, \<open>CheckNonce\<close> behaves exactly as on the store without
  those rows, in its result and in the store it leaves; it never returns true, and on a
  store whose calls all succeed it returns false without an error.
\<close>

lemma expired_nonce_rejected:
  assumes "\<not> fst (db_call st)"
    and "\<forall>r \<in> set (nonce st). n_key r = hd (SplitN s ''.'' 2) \<longrightarrow> n_time r < now - five_minutes"
  shows "CheckNonce now s st =
           CheckNonce now s (st\<lparr>nonce := filter (\<lambda>r. n_key r \<noteq> hd (SplitN s ''.'' 2)) (nonce st)\<rparr>) \<and>
         (\<forall>e. fst (CheckNonce now s st) \<noteq> Returns (True, e)) \<and>
         (healthy st \<longrightarrow> fst (CheckNonce now s st) = Returns (False, None))"
proof -
  let ?k = "hd (SplitN s ''.'' 2)"
  let ?live = "filter (\<lambda>r. \<not> n_time r < now - five_minutes) (nonce st)"
  let ?st' = "st\<lparr>nonce := filter (\<lambda>r. n_key r \<noteq> ?k) (nonce st)\<rparr>"
  have same: "filter (\<lambda>r. \<not> n_time r < now - five_minutes) (filter (\<lambda>r. n_key r \<noteq> ?k) (nonce st)) = ?live"
    using assms(2) by (auto intro: filter_cong)
  have f': "\<not> fst (db_call ?st')"
    using assms(1) by (cases "faults st") (simp_all add: db_call_def)
  have "CheckNonce now s st = CheckNonce now s (st\<lparr>nonce := ?live\<rparr>)"
    by (rule CheckNonce_gc_first [OF assms(1)])
  moreover have "CheckNonce now s ?st' = CheckNonce now s (?st'\<lparr>nonce := ?live\<rparr>)"
    using CheckNonce_gc_first [OF f', of now s] same by simp
  ultimately have indist: "CheckNonce now s st = CheckNonce now s ?st'"
    by simp
  have nokey: "filter (\<lambda>r. n_key r = ?k) ?live = []"
    using assms(2) by (auto simp: filter_empty_conv)
  have k0: "SplitN s ''.'' 2 ! 0 = ?k"
    by (auto simp: SplitN_2 split: option.splits)
  have rej: "\<forall>e. fst (CheckNonce now s st) \<noteq> Returns (True, e)"
    using assms(1) nokey k0
    by (cases "faults st") (auto simp: CheckNonce_def db_call_def Let_def split: prod.splits list.splits)
  have hl: "healthy st \<longrightarrow> fst (CheckNonce now s st) = Returns (False, None)"
    using nokey k0
    by (auto simp: CheckNonce_def healthy_def db_call_def Let_def split: prod.splits list.splits)
  from indist rej hl show ?thesis by blast
qed

text \<open>The same for the nonce issued at time 0, checked one microsecond after five minutes.\<close>

lemma expired_nonce_rejected_witness:
  "nonceIssued = emptyStore\<lparr>nonce := [\<lparr>n_key = ''k1'', n_val = ''v1'', n_time = 0\<rparr>]\<rparr> \<and>
   fst (CheckNonce 300000001 (''k1.'' @ genSig ''k1'' ''v1'') nonceIssued) = Returns (False, None) \<and>
   CheckNonce 300000001 (''k1.'' @ genSig ''k1'' ''v1'') nonceIssued =
     CheckNonce 300000001 (''k1.'' @ genSig ''k1'' ''v1'') (emptyStore :: unit pgStore)"
proof -
  have n: "nonceIssued = emptyStore\<lparr>nonce := [\<lparr>n_key = ''k1'', n_val = ''v1'', n_time = 0\<rparr>]\<rparr>"
    by (simp add: nonceIssued_def GetNonce_def db_call_def emptyStore_def)
  have k: "hd (SplitN (''k1.'' @ genSig ''k1'' ''v1'') ''.'' 2) = ''k1''"
    by (simp add: SplitN_2 HasPrefix_def)
  have a: "\<not> fst (db_call nonceIssued)"
    by (simp add: n db_call_def emptyStore_def)
  have b: "\<forall>r \<in> set (nonce nonceIssued).
             n_key r = hd (SplitN (''k1.'' @ genSig ''k1'' ''v1'') ''.'' 2) \<longrightarrow>
             n_time r < 300000001 - five_minutes"
    by (simp add: n k emptyStore_def five_minutes_def)
  have h: "healthy nonceIssued"
    by (simp add: n healthy_def emptyStore_def)
  have e: "nonceIssued\<lparr>nonce := filter (\<lambda>r. n_key r \<noteq> ''k1'') (nonce nonceIssued)\<rparr> = emptyStore"
    by (simp add: n emptyStore_def)
  have t: "CheckNonce 300000001 (''k1.'' @ genSig ''k1'' ''v1'') nonceIssued =
             CheckNonce 300000001 (''k1.'' @ genSig ''k1'' ''v1'') emptyStore \<and>
           (\<forall>e. fst (CheckNonce 300000001 (''k1.'' @ genSig ''k1'' ''v1'') nonceIssued) \<noteq>
                  Returns (True, e)) \<and>
           (healthy nonceIssued \<longrightarrow>
              fst (CheckNonce 300000001 (''k1.'' @ genSig ''k1'' ''v1'') nonceIssued) =
                Returns (False, None))"
    by (rule expired_nonce_rejected [OF a b, unfolded k e])
  from t h n show ?thesis by blast
qed

text \<open>
  Claim C3. \<open>CheckNonce\<close> drops the result of the purge, and its lookup has no test of
  the time. On the run below the nonce was issued more than five minutes before the check
  and the purge fails: \<open>CheckNonce\<close> returns true, with no error.
\<close>

theorem CheckNonce_accepts_expired_when_purge_fails:
  "nonceIssued = emptyStore\<lparr>nonce := [\<lparr>n_key = ''k1'', n_val = ''v1'', n_time = 0\<rparr>]\<rparr> \<and>
   CheckNonce 300000001 (''k1.'' @ genSig ''k1'' ''v1'') (nonceIssued\<lparr>faults := [True]\<rparr>) =
     (Returns (True, None), emptyStore)"
  by (simp add: nonceIssued_def GetNonce_def CheckNonce_def db_call_def emptyStore_def Let_def SplitN_2
        HasPrefix_def)

section \<open>The command queue\<close>

lemma GetPending_none_pending:
  "healthy st \<Longrightarrow> \<forall>r \<in> set (pendingCommands st). c_deviceId r \<noteq> devId \<Longrightarrow>
   fst (GetPending now devId st) = Returns ([], [], None)"
  by (simp add: GetPending_def healthy_def db_call_healthy oldest_def filter_empty_conv)

text \<open>
  Claim C8. With no command pending \<open>GetPending\<close> returns the empty result without an
  error (\<open>GetPending_none_pending\<close>); but when its query fails it surfaces no error:
  the call ends in the nil dereference of \<^verbatim>\<open>rows.Next()\<close>.
\<close>

theorem GetPending_query_failure:
  "GetPending now devId (st\<lparr>faults := True # fs\<rparr>) =
     (Panics NilPointerDereference, st\<lparr>faults := fs\<rparr>)"
  by (simp add: GetPending_def db_call_def)

lemma filter_map_upd:
  "(\<And>r. P (u r) = P r) \<Longrightarrow> filter P (map (\<lambda>r. if P r then u r else r) xs) = map u (filter P xs)"
  by (induction xs) auto

lemma filter_map_upd_other:
  "(\<And>r. Q (u r) = Q r) \<Longrightarrow> (\<And>r. Q r \<Longrightarrow> \<not> P r) \<Longrightarrow>
   filter Q (map (\<lambda>r. if P r then u r else r) xs) = filter Q xs"
  by (induction xs) auto

lemma StoreCommand_healthy:
  "healthy st \<Longrightarrow>
   StoreCommand now devId command cType st =
     (Returns None,
      if pendingFor devId cType st = []
      then st\<lparr>pendingCommands := pendingCommands st @
                [\<lparr>c_id = next_id st, c_deviceId = devId, c_time = now, c_cmd = command, c_type = cType\<rparr>],
              next_id := Suc (next_id st)\<rparr>
      else st\<lparr>pendingCommands :=
              map (\<lambda>r. if c_deviceId r = devId \<and> c_type r = cType
                       then r\<lparr>c_time := now, c_cmd := command\<rparr> else r) (pendingCommands st)\<rparr>)"
proof -
  have idle: "map (\<lambda>r. if c_deviceId r = devId \<and> c_type r = cType
                       then r\<lparr>c_time := now, c_cmd := command\<rparr> else r) (pendingCommands st) =
              pendingCommands st"
    if "pendingFor devId cType st = []"
    using that by (intro map_idI) (auto simp: pendingFor_def filter_empty_conv)
  show ?thesis if "healthy st"
    using that idle
    by (auto simp: StoreCommand_def healthy_def db_call_healthy Let_def pendingFor_def)
qed

lemma StoreCommand_keeps_health: "healthy st \<Longrightarrow> healthy (snd (StoreCommand now devId command cType st))"
  by (simp add: StoreCommand_healthy) (simp add: healthy_def)

lemma pendingFor_StoreCommand:
  assumes "healthy st" and "length (pendingFor devId cType st) \<le> 1"
  shows "map (\<lambda>r. (c_time r, c_cmd r)) (pendingFor devId cType (snd (StoreCommand now devId command cType st))) =
         [(now, command)]"
proof (cases "pendingFor devId cType st")
  case Nil
  with assms(1) show ?thesis
    by (simp add: StoreCommand_healthy) (simp add: pendingFor_def)
next
  case (Cons r rs)
  with assms(2) have one: "pendingFor devId cType st = [r]" by simp
  have "pendingFor devId cType (snd (StoreCommand now devId command cType st)) =
        map (\<lambda>r. r\<lparr>c_time := now, c_cmd := command\<rparr>) (pendingFor devId cType st)"
    using assms(1) one
    by (simp add: StoreCommand_healthy) (simp add: pendingFor_def filter_map_upd)
  then show ?thesis by (simp add: one)
qed

lemma foldl_oldest:
  fixes m r :: pending_row
  assumes "m = r \<or> r \<in> set rs"
    and "\<forall>x \<in> set (m # rs). x \<noteq> r \<longrightarrow> c_time r < c_time x"
  shows "foldl (\<lambda>m x. if c_time x < c_time m then x else m) m rs = r"
proof -
  define f where "f = (\<lambda>(m :: pending_row) x. if c_time x < c_time m then x else m)"
  have "foldl f m rs = r"
    using assms
  proof (induction rs arbitrary: m)
    case Nil
    then show ?case by simp
  next
    case (Cons x rs)
    have step: "f m x = r \<or> (f m x \<noteq> r \<and> x \<noteq> r \<and> m \<noteq> r \<and> (f m x = m \<or> f m x = x))"
      using Cons.prems by (auto simp: f_def)
    have "foldl f (f m x) rs = r"
    proof (rule Cons.IH)
      show "f m x = r \<or> r \<in> set rs" using step Cons.prems(1) by auto
      show "\<forall>y \<in> set (f m x # rs). y \<noteq> r \<longrightarrow> c_time r < c_time y"
        using step Cons.prems(2) by auto
    qed
    then show ?case by simp
  qed
  then show ?thesis by (simp add: f_def)
qed

lemma oldest_unique_min:
  fixes r :: pending_row
  assumes "r \<in> set rows" and "\<forall>x \<in> set rows. x \<noteq> r \<longrightarrow> c_time r < c_time x"
  shows "oldest rows = Some r"
proof (cases rows)
  case Nil
  with assms(1) show ?thesis by simp
next
  case (Cons m rs)
  with assms have "foldl (\<lambda>m x. if c_time x < c_time m then x else m) m rs = r"
    by (intro foldl_oldest) auto
  with Cons show ?thesis by (simp add: oldest_def)
qed

lemma pendingCommands_Touch [simp]: "pendingCommands (snd (Touch now devId st)) = pendingCommands st"
  by (simp add: Touch_def db_call_def Let_def split: list.splits)

lemma GetPending_healthy:
  assumes "healthy st"
    and "oldest (filter (\<lambda>r. c_deviceId r = devId) (pendingCommands st)) = Some row"
  shows "fst (GetPending now devId st) = Returns (c_cmd row, c_type row, None)"
    and "pendingCommands (snd (GetPending now devId st)) =
           filter (\<lambda>r. c_id r \<noteq> c_id row) (pendingCommands st)"
  using assms by (simp_all add: GetPending_def healthy_def db_call_healthy Let_def)

lemma others_StoreCommand:
  assumes "healthy st"
  shows "filter (\<lambda>r. c_deviceId r = devId \<and> c_type r \<noteq> cType)
           (pendingCommands (snd (StoreCommand now devId command cType st))) =
         filter (\<lambda>r. c_deviceId r = devId \<and> c_type r \<noteq> cType) (pendingCommands st)"
  using assms
    filter_map_upd_other [where Q = "\<lambda>r. c_deviceId r = devId \<and> c_type r \<noteq> cType"
      and P = "\<lambda>r. c_deviceId r = devId \<and> c_type r = cType"
      and u = "\<lambda>r. r\<lparr>c_time := now, c_cmd := command\<rparr>" and xs = "pendingCommands st"]
  by (simp add: StoreCommand_healthy)

text \<open>
  The stored procedures keep the invariant of the queue, at most one pending row for a
  key: the empty store has it, and \<open>StoreCommand\<close> and \<open>GetPending\<close> preserve it.
\<close>

lemma StoreCommand_keeps_single_row:
  assumes "healthy st" and "length (pendingFor d t st) \<le> 1"
  shows "length (pendingFor d t (snd (StoreCommand now devId command cType st))) \<le> 1"
proof (cases "d = devId \<and> t = cType")
  case True
  have "length (pendingFor devId cType (snd (StoreCommand now devId command cType st))) =
        length (map (\<lambda>r. (c_time r, c_cmd r))
          (pendingFor devId cType (snd (StoreCommand now devId command cType st))))"
    by simp
  also have "\<dots> = 1"
    using pendingFor_StoreCommand [of st devId cType now command] assms True by simp
  finally show ?thesis using True by simp
next
  case False
  have "pendingFor d t (snd (StoreCommand now devId command cType st)) = pendingFor d t st"
    using assms(1) False
      filter_map_upd_other [where Q = "\<lambda>r. c_deviceId r = d \<and> c_type r = t"
        and P = "\<lambda>r. c_deviceId r = devId \<and> c_type r = cType"
        and u = "\<lambda>r. r\<lparr>c_time := now, c_cmd := command\<rparr>" and xs = "pendingCommands st"]
    by (auto simp: StoreCommand_healthy pendingFor_def)
  with assms(2) show ?thesis by simp
qed

lemma emptyStore_single_row: "length (pendingFor d t emptyStore) \<le> 1"
  by (simp add: pendingFor_def emptyStore_def)

lemma GetPending_keeps_single_row:
  assumes "length (pendingFor d t st) \<le> 1"
  shows "length (pendingFor d t (snd (GetPending now devId st))) \<le> 1"
proof -
  have "\<exists>P. pendingCommands (snd (GetPending now devId st)) = filter P (pendingCommands st)"
  proof -
    have a: "pendingCommands st = filter (\<lambda>r. True) (pendingCommands st)" by simp
    show ?thesis
      by (cases "faults st")
        (auto simp: GetPending_def db_call_def Let_def Touch_def split: option.splits list.splits
          intro: exI [of _ "\<lambda>r. True"])
  qed
  then obtain P where "pendingCommands (snd (GetPending now devId st)) = filter P (pendingCommands st)"
    by blast
  then have "pendingFor d t (snd (GetPending now devId st)) = filter P (pendingFor d t st)"
    by (simp add: pendingFor_def conj_commute)
  with assms show ?thesis
    by (metis le_trans length_filter_le)
qed

text \<open>
  Claim C5, as the code has it. On a store whose calls succeed and that holds at most one
  row for the key, two \<open>StoreCommand\<close> calls for the key leave exactly one row for it,
  with the time and the payload of the second call. When moreover every pending command
  of the device for another type is newer than the second call, \<open>GetPending\<close> then
  returns that payload and leaves no row for the key.
\<close>

theorem StoreCommand_twice_then_GetPending:
  assumes "healthy st"
    and "length (pendingFor devId cType st) \<le> 1"
  shows "fst (StoreCommand t1 devId p1 cType st) = Returns None \<and>
         fst (StoreCommand t2 devId p2 cType (snd (StoreCommand t1 devId p1 cType st))) = Returns None \<and>
         map (\<lambda>r. (c_time r, c_cmd r))
           (pendingFor devId cType
             (snd (StoreCommand t2 devId p2 cType (snd (StoreCommand t1 devId p1 cType st))))) =
           [(t2, p2)] \<and>
         ((\<forall>r \<in> set (pendingCommands st). c_deviceId r = devId \<and> c_type r \<noteq> cType \<longrightarrow> t2 < c_time r) \<longrightarrow>
          fst (GetPending t3 devId
                (snd (StoreCommand t2 devId p2 cType (snd (StoreCommand t1 devId p1 cType st))))) =
            Returns (p2, cType, None) \<and>
          pendingFor devId cType
            (snd (GetPending t3 devId
                   (snd (StoreCommand t2 devId p2 cType (snd (StoreCommand t1 devId p1 cType st)))))) = [])"
proof -
  let ?st1 = "snd (StoreCommand t1 devId p1 cType st)"
  let ?st2 = "snd (StoreCommand t2 devId p2 cType ?st1)"
  let ?others = "\<lambda>s. filter (\<lambda>r. c_deviceId r = devId \<and> c_type r \<noteq> cType) (pendingCommands s)"
  have h1: "healthy ?st1" by (rule StoreCommand_keeps_health [OF assms(1)])
  have h2: "healthy ?st2" by (rule StoreCommand_keeps_health [OF h1])
  have r1: "fst (StoreCommand t1 devId p1 cType st) = Returns None"
    by (simp add: StoreCommand_healthy [OF assms(1)])
  have r2: "fst (StoreCommand t2 devId p2 cType ?st1) = Returns None"
    by (simp add: StoreCommand_healthy [OF h1])
  have one1: "map (\<lambda>r. (c_time r, c_cmd r)) (pendingFor devId cType ?st1) = [(t1, p1)]"
    by (rule pendingFor_StoreCommand [OF assms(1,2)])
  then have len1: "length (pendingFor devId cType ?st1) \<le> 1"
    by (metis length_map length_Cons list.size(3) One_nat_def le_refl)
  have one2: "map (\<lambda>r. (c_time r, c_cmd r)) (pendingFor devId cType ?st2) = [(t2, p2)]"
    by (rule pendingFor_StoreCommand [OF h1 len1])
  have pop: "fst (GetPending t3 devId ?st2) = Returns (p2, cType, None) \<and>
             pendingFor devId cType (snd (GetPending t3 devId ?st2)) = []"
    if newer_st: "\<forall>r \<in> set (pendingCommands st). c_deviceId r = devId \<and> c_type r \<noteq> cType \<longrightarrow> t2 < c_time r"
  proof -
    from one2 obtain row where row: "pendingFor devId cType ?st2 = [row]"
      and rt: "c_time row = t2" and rc: "c_cmd row = p2"
      by auto
    have rk: "c_deviceId row = devId \<and> c_type row = cType" and rin: "row \<in> set (pendingCommands ?st2)"
    proof -
      have "row \<in> set (pendingFor devId cType ?st2)" by (simp add: row)
      then show "c_deviceId row = devId \<and> c_type row = cType" and "row \<in> set (pendingCommands ?st2)"
        by (auto simp: pendingFor_def)
    qed
    have oth: "?others ?st2 = ?others st"
      by (simp add: others_StoreCommand [OF h1] others_StoreCommand [OF assms(1)])
    have newer: "c_time row < c_time x"
      if "x \<in> set (pendingCommands ?st2)" "c_deviceId x = devId" "x \<noteq> row" for x
    proof (cases "c_type x = cType")
      case True
      with that have "x \<in> set (pendingFor devId cType ?st2)" by (simp add: pendingFor_def)
      with row that show ?thesis by simp
    next
      case False
      with that have "x \<in> set (?others ?st2)" by simp
      then have "x \<in> set (?others st)" by (simp only: oth)
      with newer_st rt show ?thesis by auto
    qed
    have old: "oldest (filter (\<lambda>r. c_deviceId r = devId) (pendingCommands ?st2)) = Some row"
      using rin rk newer by (intro oldest_unique_min) auto
    have g1: "fst (GetPending t3 devId ?st2) = Returns (p2, cType, None)"
      using GetPending_healthy(1) [OF h2 old] rk rc by simp
    have "pendingFor devId cType (snd (GetPending t3 devId ?st2)) =
          filter (\<lambda>r. c_id r \<noteq> c_id row) (pendingFor devId cType ?st2)"
      by (simp add: GetPending_healthy(2) [OF h2 old] pendingFor_def conj_commute)
    then have g2: "pendingFor devId cType (snd (GetPending t3 devId ?st2)) = []"
      by (simp add: row)
    from g1 g2 show ?thesis by simp
  qed
  from r1 r2 one2 pop show ?thesis by blast
qed

text \<open>
  C5 at a store where the same device has an \<open>erase\<close> command of a later date:
  \<open>GetPending\<close> has two commands of the device to choose from and takes the \<open>lock\<close>
  command.
\<close>

theorem StoreCommand_twice_then_GetPending_witness:
  "laterErase = emptyStore\<lparr>pendingCommands :=
      [\<lparr>c_id = 0, c_deviceId = ''dev-1'', c_time = 10, c_cmd = ''e'', c_type = ''erase''\<rparr>], next_id := 1\<rparr> \<and>
   healthy laterErase \<and> length (pendingFor ''dev-1'' ''lock'' laterErase) \<le> 1 \<and>
   fst (StoreCommand 2 ''dev-1'' ''p1'' ''lock'' laterErase) = Returns None \<and>
   fst (StoreCommand 3 ''dev-1'' ''p2'' ''lock'' (snd (StoreCommand 2 ''dev-1'' ''p1'' ''lock'' laterErase))) =
     Returns None \<and>
   map (\<lambda>r. (c_time r, c_cmd r))
     (pendingFor ''dev-1'' ''lock''
       (snd (StoreCommand 3 ''dev-1'' ''p2'' ''lock'' (snd (StoreCommand 2 ''dev-1'' ''p1'' ''lock'' laterErase))))) =
     [(3, ''p2'')] \<and>
   fst (GetPending 11 ''dev-1''
         (snd (StoreCommand 3 ''dev-1'' ''p2'' ''lock'' (snd (StoreCommand 2 ''dev-1'' ''p1'' ''lock'' laterErase))))) =
     Returns (''p2'', ''lock'', None) \<and>
   pendingFor ''dev-1'' ''lock''
     (snd (GetPending 11 ''dev-1''
            (snd (StoreCommand 3 ''dev-1'' ''p2'' ''lock''
                   (snd (StoreCommand 2 ''dev-1'' ''p1'' ''lock'' laterErase)))))) = []"
proof -
  have le: "laterErase = emptyStore\<lparr>pendingCommands :=
      [\<lparr>c_id = 0, c_deviceId = ''dev-1'', c_time = 10, c_cmd = ''e'', c_type = ''erase''\<rparr>], next_id := 1\<rparr>"
    by (simp add: laterErase_def emptyStore_def StoreCommand_def db_call_def Let_def)
  have h: "healthy laterErase" by (simp add: le healthy_def emptyStore_def)
  have l: "length (pendingFor ''dev-1'' ''lock'' laterErase) \<le> 1"
    by (simp add: le pendingFor_def emptyStore_def)
  have o: "\<forall>r \<in> set (pendingCommands laterErase).
             c_deviceId r = ''dev-1'' \<and> c_type r \<noteq> ''lock'' \<longrightarrow> 3 < c_time r"
    by (simp add: le emptyStore_def)
  from StoreCommand_twice_then_GetPending [OF h l, of 2 "''p1''" 3 "''p2''" 11] o h l le show ?thesis
    by blast
qed

text \<open>
  Claim C5 as it is stated fails on a store where the device has an older command of
  another type: \<open>GetPending\<close> takes the oldest command of the device, here the
  \<open>erase\<close> command, and the row of the key stays.
\<close>

theorem GetPending_returns_older_command:
  "length (pendingFor ''dev-1'' ''lock'' lockQueuedTwice) = 1 \<and>
   fst (GetPending 4 ''dev-1'' lockQueuedTwice) = Returns (''e'', ''erase'', None) \<and>
   map c_cmd (pendingFor ''dev-1'' ''lock'' (snd (GetPending 4 ''dev-1'' lockQueuedTwice))) = [''p2'']"
  by (simp add: lockQueuedTwice_def eraseQueued_def emptyStore_def StoreCommand_def GetPending_def
        Touch_def db_call_def oldest_def pendingFor_def Let_def)

section \<open>The position tracker\<close>

lemma SetDeviceLocation_healthy:
  "healthy st \<Longrightarrow>
   SetDeviceLocation f32 now devId pos st =
     (Returns None,
      st\<lparr>position := filter (\<lambda>r. p_deviceId r \<noteq> devId) (position st) @
           [\<lparr>p_deviceId = devId, p_time = now,
             p_latitude = f32 (Latitude pos), p_longitude = f32 (Longitude pos),
             p_altitude = f32 (Altitude pos), p_accuracy = f32 (Accuracy pos)\<rparr>]\<rparr>)"
  by (simp add: SetDeviceLocation_def PurgePosition_def healthy_def db_call_healthy Let_def)

text \<open>
  On a store whose calls succeed, and whatever positions it holds, two
  \<open>SetDeviceLocation\<close> calls for a device leave exactly one position row for the
  device: the row of the second call, with its coordinates at single precision.
\<close>

lemma SetDeviceLocation_twice:
  assumes "healthy st"
  shows "fst (SetDeviceLocation f32 t2 devId pos2 (snd (SetDeviceLocation f32 t1 devId pos1 st))) =
           Returns None \<and>
         positionsOf devId
           (snd (SetDeviceLocation f32 t2 devId pos2 (snd (SetDeviceLocation f32 t1 devId pos1 st)))) =
           [\<lparr>p_deviceId = devId, p_time = t2,
             p_latitude = f32 (Latitude pos2), p_longitude = f32 (Longitude pos2),
             p_altitude = f32 (Altitude pos2), p_accuracy = f32 (Accuracy pos2)\<rparr>]"
proof -
  let ?st1 = "snd (SetDeviceLocation f32 t1 devId pos1 st)"
  have h1: "healthy ?st1"
    using assms by (simp add: SetDeviceLocation_healthy) (simp add: healthy_def)
  show ?thesis
    by (simp add: SetDeviceLocation_healthy [OF h1] positionsOf_def)
qed

text \<open>The same at the empty store.\<close>

lemma SetDeviceLocation_twice_witness:
  "healthy (emptyStore :: int pgStore) \<and>
   positionsOf ''dev-1''
     (snd (SetDeviceLocation (\<lambda>x. x) 2 ''dev-1''
            \<lparr>Latitude = 11, Longitude = 21, Altitude = 31, Accuracy = 41, Time_pos = 0\<rparr>
            (snd (SetDeviceLocation (\<lambda>x. x) 1 ''dev-1''
                   \<lparr>Latitude = 10, Longitude = 20, Altitude = 30, Accuracy = 40, Time_pos = 0\<rparr>
                   (emptyStore :: int pgStore))))) =
     [\<lparr>p_deviceId = ''dev-1'', p_time = 2, p_latitude = 11, p_longitude = 21, p_altitude = 31,
       p_accuracy = 41\<rparr>]"
proof -
  have h: "healthy (emptyStore :: int pgStore)" by (simp add: healthy_def emptyStore_def)
  from SetDeviceLocation_twice [OF h, of "\<lambda>x. x" 2 "''dev-1''"
      "\<lparr>Latitude = 11, Longitude = 21, Altitude = 31, Accuracy = 41, Time_pos = 0\<rparr>" 1
      "\<lparr>Latitude = 10, Longitude = 20, Altitude = 30, Accuracy = 40, Time_pos = 0\<rparr>"] h
  show ?thesis by simp
qed

text \<open>
  Claim C6. \<open>SetDeviceLocation\<close> drops the result of \<open>PurgePosition\<close>. On the run
  below the purge of the second call fails: both calls return nil, and two position rows
  of the device remain.
\<close>

theorem SetDeviceLocation_keeps_old_row_when_purge_fails:
  "SetDeviceLocation (\<lambda>x. x) 1 ''dev-1''
     \<lparr>Latitude = 10, Longitude = 20, Altitude = 30, Accuracy = 40, Time_pos = 0\<rparr>
     (emptyStore\<lparr>faults := [False, False, False, True]\<rparr> :: int pgStore) =
     (Returns None,
      emptyStore\<lparr>position := [\<lparr>p_deviceId = ''dev-1'', p_time = 1, p_latitude = 10, p_longitude = 20,
                                p_altitude = 30, p_accuracy = 40\<rparr>],
                 faults := [True]\<rparr>) \<and>
   SetDeviceLocation (\<lambda>x. x) 2 ''dev-1''
     \<lparr>Latitude = 11, Longitude = 21, Altitude = 31, Accuracy = 41, Time_pos = 0\<rparr>
     (emptyStore\<lparr>position := [\<lparr>p_deviceId = ''dev-1'', p_time = 1, p_latitude = 10, p_longitude = 20,
                                p_altitude = 30, p_accuracy = 40\<rparr>],
                 faults := [True]\<rparr> :: int pgStore) =
     (Returns None,
      emptyStore\<lparr>position := [\<lparr>p_deviceId = ''dev-1'', p_time = 1, p_latitude = 10, p_longitude = 20,
                                p_altitude = 30, p_accuracy = 40\<rparr>,
                               \<lparr>p_deviceId = ''dev-1'', p_time = 2, p_latitude = 11, p_longitude = 21,
                                p_altitude = 31, p_accuracy = 41\<rparr>]\<rparr>)"
  by (simp add: SetDeviceLocation_def PurgePosition_def db_call_def emptyStore_def Let_def)

end
